theory Spec2Isabelle
  imports Complex_Main
begin

section \<open>The fitness tracker of homework.py\<close>

text \<open>
  The module computes the distance, the mean speed and the calories of a workout from
  raw sensor data, for three kinds of workout, and renders the result as one line of
  text. The embedding follows the source class by class and method by method.

  Numbers. The annotations of the source say \<open>int\<close> for \<open>action\<close>, \<open>count_pool\<close>,
  the unit constants and the sensor data, and \<open>float\<close> for everything else. Python's
  unbounded \<open>int\<close> is \<open>int\<close> here. A Python \<open>float\<close> is modelled as a \<open>real\<close>: every
  operation is the exact one, without the rounding of binary floating point, without
  infinities and without not-a-number. What is kept of Python's arithmetic is that the
  true division \<open>/\<close> raises \<open>ZeroDivisionError\<close> on a zero divisor.

  Strings. A Python \<open>str\<close> is modelled as the list of the bytes of its UTF-8 encoding
  (\<open>string\<close>); the Cyrillic words of the source are given by their code points.

  Objects. A method takes the object \<open>self\<close> and returns its result, or the exception it
  raises, together with the object as the call leaves it.
\<close>

subsection \<open>Exceptions\<close>

text \<open>
  \<open>ValueError\<close> and \<open>NotImplementedError\<close> carry the message the source gives them.
  \<open>ZeroDivisionError\<close> is raised by \<open>/\<close>, \<open>TypeError\<close> by a call with the wrong number of
  positional arguments, \<open>OverflowError\<close> by the conversion to \<open>float\<close> of an \<open>int\<close> that is
  too large; their messages are the interpreter's and are not modelled.
\<close>

datatype error =
    ValueError string
  | NotImplementedError string
  | ZeroDivisionError
  | TypeError
  | OverflowError

definition bind_err :: "error + 'a \<Rightarrow> ('a \<Rightarrow> error + 'b) \<Rightarrow> error + 'b" where
  "bind_err r k = (case r of Inl e \<Rightarrow> Inl e | Inr x \<Rightarrow> k x)"

text \<open>Python's \<open>a / b\<close> on numbers.\<close>

definition truediv :: "real \<Rightarrow> real \<Rightarrow> error + real" where
  "truediv a b = (if b = 0 then Inl ZeroDivisionError else Inr (a / b))"

subsection \<open>Strings\<close>

text \<open>The UTF-8 encoding of one code point, and of a list of code points.\<close>

definition utf8_char :: "nat \<Rightarrow> string" where
  "utf8_char c =
     (if c < 0x80 then [char_of c]
      else if c < 0x800 then [char_of (0xC0 + c div 64), char_of (0x80 + c mod 64)]
      else if c < 0x10000 then
        [char_of (0xE0 + c div 4096), char_of (0x80 + c div 64 mod 64),
         char_of (0x80 + c mod 64)]
      else
        [char_of (0xF0 + c div 262144), char_of (0x80 + c div 4096 mod 64),
         char_of (0x80 + c div 64 mod 64), char_of (0x80 + c mod 64)])"

definition utf8 :: "nat list \<Rightarrow> string" where
  "utf8 cs = concat (map utf8_char cs)"

text \<open>
  The Cyrillic words of \<open>MESSAGE_TEMPLATE\<close>, named by their transliteration:
  "Tip trenirovki" (kind of workout), "Dlitel'nost'" (duration), "ch" (hours),
  "Distantsiya" (distance), "km", "Sr. skorost'" (mean speed) and
  "Potracheno kkal" (kilocalories spent).
\<close>

definition Tip_trenirovki :: string where
  "Tip_trenirovki =
     utf8 [0x422, 0x438, 0x43F, 0x20,
           0x442, 0x440, 0x435, 0x43D, 0x438, 0x440, 0x43E, 0x432, 0x43A, 0x438]"

definition Dlitelnost :: string where
  "Dlitelnost =
     utf8 [0x414, 0x43B, 0x438, 0x442, 0x435, 0x43B, 0x44C, 0x43D, 0x43E, 0x441, 0x442, 0x44C]"

definition cyr_ch :: string where
  "cyr_ch = utf8 [0x447]"

definition Distantsiya :: string where
  "Distantsiya = utf8 [0x414, 0x438, 0x441, 0x442, 0x430, 0x43D, 0x446, 0x438, 0x44F]"

definition cyr_km :: string where
  "cyr_km = utf8 [0x43A, 0x43C]"

definition Sr_skorost :: string where
  "Sr_skorost =
     utf8 [0x421, 0x440, 0x2E, 0x20,
           0x441, 0x43A, 0x43E, 0x440, 0x43E, 0x441, 0x442, 0x44C]"

definition Potracheno_kkal :: string where
  "Potracheno_kkal =
     utf8 [0x41F, 0x43E, 0x442, 0x440, 0x430, 0x447, 0x435, 0x43D, 0x43E, 0x20,
           0x43A, 0x43A, 0x430, 0x43B]"

text \<open>
  The messages of the two exceptions of the source: "Nepravil'nyi tip trenirovki."
  (wrong kind of workout) and "V dochernikh klassakh ne opisan metod
  get_spent_calories." (the subclasses do not define the method).
\<close>

definition Nepravilnyi_tip_trenirovki :: string where
  "Nepravilnyi_tip_trenirovki =
     utf8 [0x41D, 0x435, 0x43F, 0x440, 0x430, 0x432, 0x438, 0x43B, 0x44C, 0x43D, 0x44B, 0x439,
           0x20, 0x442, 0x438, 0x43F, 0x20,
           0x442, 0x440, 0x435, 0x43D, 0x438, 0x440, 0x43E, 0x432, 0x43A, 0x438, 0x2E]"

definition V_dochernikh_klassakh_ne_opisan_metod :: string where
  "V_dochernikh_klassakh_ne_opisan_metod =
     utf8 [0x412, 0x20,
           0x434, 0x43E, 0x447, 0x435, 0x440, 0x43D, 0x438, 0x445, 0x20,
           0x43A, 0x43B, 0x430, 0x441, 0x441, 0x430, 0x445, 0x20,
           0x43D, 0x435, 0x20,
           0x43E, 0x43F, 0x438, 0x441, 0x430, 0x43D, 0x20,
           0x43C, 0x435, 0x442, 0x43E, 0x434, 0x20]
     @ ''get_spent_calories.''"

subsection \<open>The format specification \<open>.3f\<close>\<close>

text \<open>
  \<open>format(x, '.3f')\<close> writes \<open>x\<close> in fixed-point notation with three digits after the
  point: a minus sign when \<open>x\<close> is negative, the digits of the integer part, the point
  and three digits. Python rounds the exact value of \<open>x\<close> to the nearest thousandth and a
  tie to the even one.
\<close>

definition round_half_even :: "real \<Rightarrow> int" where
  "round_half_even x =
     (let f = \<lfloor>x\<rfloor>; d = x - of_int f
      in if d < 1 / 2 then f
         else if 1 / 2 < d then f + 1
         else if even f then f else f + 1)"

definition digit_char :: "nat \<Rightarrow> char" where
  "digit_char d =
     (if d = 0 then CHR ''0'' else if d = 1 then CHR ''1'' else if d = 2 then CHR ''2''
      else if d = 3 then CHR ''3'' else if d = 4 then CHR ''4'' else if d = 5 then CHR ''5''
      else if d = 6 then CHR ''6'' else if d = 7 then CHR ''7'' else if d = 8 then CHR ''8''
      else CHR ''9'')"

fun decimal :: "nat \<Rightarrow> string" where
  "decimal n =
     (if n < 10 then [digit_char n] else decimal (n div 10) @ [digit_char (n mod 10)])"

definition format_3f :: "real \<Rightarrow> string" where
  "format_3f x =
     (let n = nat (round_half_even (\<bar>x\<bar> * 1000))
      in (if x < 0 then ''-'' else [])
         @ decimal (n div 1000) @ ''.''
         @ [digit_char (n mod 1000 div 100), digit_char (n mod 100 div 10),
            digit_char (n mod 10)])"

subsection \<open>InfoMessage\<close>

record InfoMessage =
  training_type :: string
  duration :: real
  distance :: real
  speed :: real
  calories :: real

text \<open>
  \<open>get_message\<close> fills \<open>MESSAGE_TEMPLATE\<close> with the five fields: the kind of workout as
  it is, the four numbers with \<open>.3f\<close>.
\<close>

definition get_message :: "InfoMessage \<Rightarrow> string" where
  "get_message m =
     Tip_trenirovki @ '': '' @ training_type m @ ''; ''
     @ Dlitelnost @ '': '' @ format_3f (InfoMessage.duration m) @ '' '' @ cyr_ch @ ''.; ''
     @ Distantsiya @ '': '' @ format_3f (distance m) @ '' '' @ cyr_km @ ''; ''
     @ Sr_skorost @ '': '' @ format_3f (speed m) @ '' '' @ cyr_km @ ''/'' @ cyr_ch @ ''; ''
     @ Potracheno_kkal @ '': '' @ format_3f (calories m) @ ''.''"

subsection \<open>Training and its subclasses\<close>

text \<open>
  An object of class \<open>Training\<close> or of one of its three subclasses: the constructor of
  the datatype is the class of the object, its arguments are the attributes that the
  \<open>__init__\<close> of the class sets. The base class can be instantiated as well.
\<close>

datatype training =
    Training (action: int) (duration: real) (weight: real)
  | Running (action: int) (duration: real) (weight: real)
  | SportsWalking (action: int) (duration: real) (weight: real) (height: real)
  | Swimming (action: int) (duration: real) (weight: real) (length_pool: real)
      (count_pool: int)

text \<open>\<open>type(self).__name__\<close>.\<close>

fun class_name :: "training \<Rightarrow> string" where
  "class_name (Training _ _ _) = ''Training''"
| "class_name (Running _ _ _) = ''Running''"
| "class_name (SportsWalking _ _ _ _) = ''SportsWalking''"
| "class_name (Swimming _ _ _ _ _) = ''Swimming''"

text \<open>The class constants. \<open>LEN_STEP\<close> is the one that a subclass overrides.\<close>

definition M_IN_KM :: int where
  "M_IN_KM = 1000"

definition MIN_IN_HOUR :: int where
  "MIN_IN_HOUR = 60"

fun LEN_STEP :: "training \<Rightarrow> real" where
  "LEN_STEP (Swimming _ _ _ _ _) = 1.38"
| "LEN_STEP _ = 0.65"

definition CALORIES_MEAN_SPEED_MULTIPLIER :: int where
  "CALORIES_MEAN_SPEED_MULTIPLIER = 18"

definition CALORIES_MEAN_SPEED_SHIFT :: real where
  "CALORIES_MEAN_SPEED_SHIFT = 1.79"

definition MSEC_IN_KMHOUR :: real where
  "MSEC_IN_KMHOUR = 0.278"

definition SM_IN_M :: int where
  "SM_IN_M = 100"

definition CALORIES_WEIGHT_FIRST_MULTIPLIER :: real where
  "CALORIES_WEIGHT_FIRST_MULTIPLIER = 0.035"

definition CALORIES_WEIGHT_SECOND_MULTIPLIER :: real where
  "CALORIES_WEIGHT_SECOND_MULTIPLIER = 0.029"

definition CALORIES_SPEED_SHIFT :: real where
  "CALORIES_SPEED_SHIFT = 1.1"

definition CALORIES_SPEED_MULTIPLIER :: int where
  "CALORIES_SPEED_MULTIPLIER = 2"

text \<open>
  The outcome of a method call: the value returned or the exception raised, and the
  object after the call. \<open>then_call\<close> continues with the value and the object that a
  call has left, and passes an exception on.
\<close>

type_synonym 'a outcome = "(error + 'a) \<times> training"

definition then_call :: "'a outcome \<Rightarrow> ('a \<Rightarrow> training \<Rightarrow> 'b outcome) \<Rightarrow> 'b outcome" where
  "then_call r k = (case r of (Inl e, self) \<Rightarrow> (Inl e, self) | (Inr x, self) \<Rightarrow> k x self)"

text \<open>\<open>Training.get_distance\<close>; no subclass overrides it.\<close>

definition Training_get_distance :: "training \<Rightarrow> real outcome" where
  "Training_get_distance self =
     (truediv (of_int (action self) * LEN_STEP self) (of_int M_IN_KM), self)"

definition get_distance :: "training \<Rightarrow> real outcome" where
  "get_distance self = Training_get_distance self"

text \<open>\<open>get_mean_speed\<close>: the one of \<open>Training\<close>, and the one of \<open>Swimming\<close>.\<close>

definition Training_get_mean_speed :: "training \<Rightarrow> real outcome" where
  "Training_get_mean_speed self =
     then_call (get_distance self) (\<lambda>d self. (truediv d (duration self), self))"

definition Swimming_get_mean_speed :: "training \<Rightarrow> real outcome" where
  "Swimming_get_mean_speed self =
     (bind_err (truediv (length_pool self * of_int (count_pool self)) (of_int M_IN_KM))
        (\<lambda>q. truediv q (duration self)),
      self)"

fun get_mean_speed :: "training \<Rightarrow> real outcome" where
  "get_mean_speed (Swimming a d w l c) = Swimming_get_mean_speed (Swimming a d w l c)"
| "get_mean_speed self = Training_get_mean_speed self"

text \<open>\<open>get_spent_calories\<close>: the one of \<open>Training\<close> raises, each subclass has its own.\<close>

definition Training_get_spent_calories :: "training \<Rightarrow> real outcome" where
  "Training_get_spent_calories self =
     (Inl (NotImplementedError V_dochernikh_klassakh_ne_opisan_metod), self)"

definition Running_get_spent_calories :: "training \<Rightarrow> real outcome" where
  "Running_get_spent_calories self =
     then_call (get_mean_speed self) (\<lambda>v self.
       (bind_err
          (truediv
             ((of_int CALORIES_MEAN_SPEED_MULTIPLIER * v + CALORIES_MEAN_SPEED_SHIFT)
              * weight self)
             (of_int M_IN_KM))
          (\<lambda>q. Inr (q * duration self * of_int MIN_IN_HOUR)),
        self))"

definition SportsWalking_get_spent_calories :: "training \<Rightarrow> real outcome" where
  "SportsWalking_get_spent_calories self =
     then_call (get_mean_speed self) (\<lambda>v self.
       (bind_err (truediv ((v * MSEC_IN_KMHOUR) ^ 2) (height self))
          (\<lambda>q. Inr ((CALORIES_WEIGHT_FIRST_MULTIPLIER * weight self
                      + q * of_int SM_IN_M * CALORIES_WEIGHT_SECOND_MULTIPLIER * weight self)
                     * duration self * of_int MIN_IN_HOUR)),
        self))"

definition Swimming_get_spent_calories :: "training \<Rightarrow> real outcome" where
  "Swimming_get_spent_calories self =
     then_call (get_mean_speed self) (\<lambda>v self.
       (Inr ((v + CALORIES_SPEED_SHIFT) * of_int CALORIES_SPEED_MULTIPLIER
             * weight self * duration self),
        self))"

fun get_spent_calories :: "training \<Rightarrow> real outcome" where
  "get_spent_calories (Training a d w) = Training_get_spent_calories (Training a d w)"
| "get_spent_calories (Running a d w) = Running_get_spent_calories (Running a d w)"
| "get_spent_calories (SportsWalking a d w h) =
     SportsWalking_get_spent_calories (SportsWalking a d w h)"
| "get_spent_calories (Swimming a d w l c) =
     Swimming_get_spent_calories (Swimming a d w l c)"

text \<open>
  \<open>show_training_info\<close>: the arguments of \<open>InfoMessage\<close> are evaluated from left to
  right, so the first call that raises decides the exception.
\<close>

definition show_training_info :: "training \<Rightarrow> InfoMessage outcome" where
  "show_training_info self =
     (let name = class_name self; t = duration self
      in then_call (get_distance self) (\<lambda>d self.
           then_call (get_mean_speed self) (\<lambda>v self.
             then_call (get_spent_calories self) (\<lambda>c self.
               (Inr \<lparr>training_type = name, duration = t, distance = d, speed = v,
                     calories = c\<rparr>,
                self)))))"

subsection \<open>read_package\<close>

text \<open>
  The constructor calls \<open>Running(*data)\<close>, \<open>SportsWalking(*data)\<close> and
  \<open>Swimming(*data)\<close>: the elements of \<open>data\<close> become the positional arguments, and a
  list of the wrong length is a \<open>TypeError\<close>. \<open>Running\<close> inherits the \<open>__init__\<close> of
  \<open>Training\<close>. The parameters are, in this order, \<open>action\<close>, \<open>duration\<close>, \<open>weight\<close>,
  then \<open>height\<close> for \<open>SportsWalking\<close>, and \<open>length_pool\<close>, \<open>count_pool\<close> for \<open>Swimming\<close>.
\<close>

fun Running_init :: "int list \<Rightarrow> error + training" where
  "Running_init [a, d, w] = Inr (Running a (of_int d) (of_int w))"
| "Running_init _ = Inl TypeError"

fun SportsWalking_init :: "int list \<Rightarrow> error + training" where
  "SportsWalking_init [a, d, w, h] =
     Inr (SportsWalking a (of_int d) (of_int w) (of_int h))"
| "SportsWalking_init _ = Inl TypeError"

fun Swimming_init :: "int list \<Rightarrow> error + training" where
  "Swimming_init [a, d, w, l, c] =
     Inr (Swimming a (of_int d) (of_int w) (of_int l) c)"
| "Swimming_init _ = Inl TypeError"

definition training_types :: "(string \<times> (int list \<Rightarrow> error + training)) list" where
  "training_types =
     [(''RUN'', Running_init), (''WLK'', SportsWalking_init), (''SWM'', Swimming_init)]"

definition read_package :: "string \<Rightarrow> int list \<Rightarrow> error + training" where
  "read_package workout_type data =
     (case map_of training_types workout_type of
        None \<Rightarrow> Inl (ValueError Nepravilnyi_tip_trenirovki)
      | Some cls \<Rightarrow> cls data)"

text \<open>
  The body of the driver's \<open>main\<close> without the printing: the line that is printed for
  one package.
\<close>

definition main_line :: "string \<Rightarrow> int list \<Rightarrow> error + string" where
  "main_line workout_type data =
     bind_err (read_package workout_type data) (\<lambda>training.
       bind_err (fst (show_training_info training)) (\<lambda>info. Inr (get_message info)))"

subsection \<open>get_distance in binary floating point\<close>

text \<open>
  The definitions above compute with exact reals, which is the level at which the
  formulas of the methods are stated. Whether two results differ can depend on the
  rounding of Python's \<open>float\<close>, the binary64 format of IEEE 754. This section models
  that rounding and gives \<open>get_distance\<close> a second time, with every operation of the
  source rounded as Python rounds it.

  A \<open>float\<close> is a finite value, an infinity or not-a-number. The finite values are the
  reals \<open>m * 2^e\<close> with \<open>\<bar>m\<bar> < 2^53\<close> and \<open>-1074 \<le> e\<close> below \<open>2^1024\<close> in magnitude. The two
  zeros of the format are not told apart: \<open>get_distance\<close> never computes the negative one.
\<close>

datatype f64 = Fin real | PosInf | NegInf | NaN

text \<open>\<open>pow2 e\<close> is \<open>2^e\<close> for an integer \<open>e\<close> of either sign.\<close>

definition pow2 :: "int \<Rightarrow> real" where
  "pow2 e = (if 0 \<le> e then 2 ^ nat e else 1 / 2 ^ nat (- e))"

text \<open>The number of binary digits of a positive integer; 0 for the others.\<close>

function bitlength :: "int \<Rightarrow> int" where
  "bitlength n = (if n \<le> 0 then 0 else bitlength (n div 2) + 1)"
  by pat_completeness auto
termination
  by (relation "measure nat") auto

declare bitlength.simps [simp del]

text \<open>
  The binary exponent of a positive real \<open>y\<close>: the integer \<open>e\<close> with
  \<open>2^e \<le> y < 2^(e + 1)\<close>.
\<close>

definition ilog2 :: "real \<Rightarrow> int" where
  "ilog2 y =
     (if 1 \<le> y then bitlength \<lfloor>y\<rfloor> - 1 else - bitlength (\<lceil>1 / y\<rceil> - 1))"

text \<open>
  The floats around a real \<open>x\<close> other than 0 are the multiples of
  \<open>2^(ulp_exponent x)\<close>: 53 significant binary digits, and below \<open>2^(-1022)\<close> the
  spacing stays \<open>2^(-1074)\<close> (the subnormal numbers).
\<close>

definition ulp_exponent :: "real \<Rightarrow> int" where
  "ulp_exponent x = max (ilog2 \<bar>x\<bar>) (- 1022) - 52"

text \<open>
  Rounding to the nearest of these multiples, a tie to the even one. The exponent is
  not bounded above here; \<open>f64_round\<close> does that.
\<close>

definition round53 :: "real \<Rightarrow> real" where
  "round53 x =
     (if x = 0 then 0
      else let u = pow2 (ulp_exponent x) in of_int (round_half_even (x / u)) * u)"

text \<open>
  The result of an arithmetic operation whose exact value is \<open>x\<close>: the rounded value
  when it is below \<open>2^1024\<close> in magnitude, an infinity otherwise.
\<close>

definition f64_limit :: real where
  "f64_limit = 2 ^ 1024"

definition f64_round :: "real \<Rightarrow> f64" where
  "f64_round x =
     (let m = round53 x
      in if f64_limit \<le> \<bar>m\<bar> then (if x < 0 then NegInf else PosInf) else Fin m)"

text \<open>
  The conversion of an \<open>int\<close> operand to \<open>float\<close>, which \<open>int * float\<close> and
  \<open>float / int\<close> do first: correctly rounded, and an \<open>OverflowError\<close> where the result
  would not be finite.
\<close>

definition int_to_f64 :: "int \<Rightarrow> error + f64" where
  "int_to_f64 n =
     (case f64_round (of_int n) of Fin m \<Rightarrow> Inr (Fin m) | _ \<Rightarrow> Inl OverflowError)"

fun f64_negative :: "f64 \<Rightarrow> bool" where
  "f64_negative (Fin x) = (x < 0)"
| "f64_negative NegInf = True"
| "f64_negative _ = False"

definition f64_inf :: "bool \<Rightarrow> f64" where
  "f64_inf negative = (if negative then NegInf else PosInf)"

text \<open>\<open>float * float\<close>: it never raises; an overflow gives an infinity.\<close>

fun f64_mul :: "f64 \<Rightarrow> f64 \<Rightarrow> f64" where
  "f64_mul NaN _ = NaN"
| "f64_mul _ NaN = NaN"
| "f64_mul (Fin x) (Fin y) = f64_round (x * y)"
| "f64_mul (Fin x) y = (if x = 0 then NaN else f64_inf ((x < 0) \<noteq> f64_negative y))"
| "f64_mul x (Fin y) = (if y = 0 then NaN else f64_inf (f64_negative x \<noteq> (y < 0)))"
| "f64_mul x y = f64_inf (f64_negative x \<noteq> f64_negative y)"

text \<open>\<open>float / float\<close>: a zero divisor raises, as for the exact numbers.\<close>

fun f64_div :: "f64 \<Rightarrow> f64 \<Rightarrow> f64" where
  "f64_div NaN _ = NaN"
| "f64_div _ NaN = NaN"
| "f64_div (Fin x) (Fin y) = f64_round (x / y)"
| "f64_div (Fin x) y = Fin 0"
| "f64_div x (Fin y) = f64_inf (f64_negative x \<noteq> (y < 0))"
| "f64_div x y = NaN"

definition f64_truediv :: "f64 \<Rightarrow> f64 \<Rightarrow> error + f64" where
  "f64_truediv x y = (if y = Fin 0 then Inl ZeroDivisionError else Inr (f64_div x y))"

text \<open>The comparisons \<open><=\<close> and \<open><\<close> of two floats; not-a-number compares false.\<close>

fun f64_le :: "f64 \<Rightarrow> f64 \<Rightarrow> bool" where
  "f64_le NaN _ = False"
| "f64_le _ NaN = False"
| "f64_le (Fin x) (Fin y) = (x \<le> y)"
| "f64_le NegInf _ = True"
| "f64_le _ PosInf = True"
| "f64_le _ _ = False"

fun f64_less :: "f64 \<Rightarrow> f64 \<Rightarrow> bool" where
  "f64_less NaN _ = False"
| "f64_less _ NaN = False"
| "f64_less (Fin x) (Fin y) = (x < y)"
| "f64_less NegInf NegInf = False"
| "f64_less PosInf PosInf = False"
| "f64_less NegInf _ = True"
| "f64_less _ PosInf = True"
| "f64_less _ _ = False"

text \<open>
  The float that the literal of \<open>LEN_STEP\<close> denotes, and \<open>Training.get_distance\<close> with
  the operations of the source as Python carries them out:
  \<open>self.action * self.LEN_STEP\<close> converts the \<open>int\<close> and multiplies,
  \<open>... / self.M_IN_KM\<close> converts the \<open>int\<close> and divides.
\<close>

definition LEN_STEP_f64 :: "training \<Rightarrow> f64" where
  "LEN_STEP_f64 self = f64_round (LEN_STEP self)"

definition Training_get_distance_f64 :: "training \<Rightarrow> f64 outcome" where
  "Training_get_distance_f64 self =
     (bind_err
        (bind_err (int_to_f64 (action self)) (\<lambda>steps.
           Inr (f64_mul steps (LEN_STEP_f64 self))))
        (\<lambda>metres. bind_err (int_to_f64 M_IN_KM) (\<lambda>m_in_km. f64_truediv metres m_in_km)),
      self)"

definition get_distance_f64 :: "training \<Rightarrow> f64 outcome" where
  "get_distance_f64 self = Training_get_distance_f64 self"

section \<open>What the methods compute\<close>

text \<open>
  Each method in closed form: the value it returns or the exception it raises, by the
  attributes of the object, and the object it leaves.
\<close>

lemmas constant_defs =
  M_IN_KM_def MIN_IN_HOUR_def CALORIES_MEAN_SPEED_MULTIPLIER_def CALORIES_MEAN_SPEED_SHIFT_def
  MSEC_IN_KMHOUR_def SM_IN_M_def CALORIES_WEIGHT_FIRST_MULTIPLIER_def
  CALORIES_WEIGHT_SECOND_MULTIPLIER_def CALORIES_SPEED_SHIFT_def CALORIES_SPEED_MULTIPLIER_def

lemma get_distance_eq:
  "get_distance self = (Inr (of_int (action self) * LEN_STEP self / 1000), self)"
  by (simp add: get_distance_def Training_get_distance_def truediv_def M_IN_KM_def)

lemma Training_get_mean_speed_eq:
  "Training_get_mean_speed self =
     (if duration self = 0 then Inl ZeroDivisionError
      else Inr (of_int (action self) * LEN_STEP self / 1000 / duration self), self)"
  by (simp add: Training_get_mean_speed_def then_call_def get_distance_eq truediv_def)

lemma Swimming_get_mean_speed_eq:
  "Swimming_get_mean_speed self =
     (if duration self = 0 then Inl ZeroDivisionError
      else Inr (length_pool self * of_int (count_pool self) / 1000 / duration self), self)"
  by (simp add: Swimming_get_mean_speed_def bind_err_def truediv_def M_IN_KM_def)

lemma get_mean_speed_frame: "snd (get_mean_speed self) = self"
  by (cases self) (simp_all add: Training_get_mean_speed_eq Swimming_get_mean_speed_eq)

lemma Running_get_spent_calories_eq:
  "Running_get_spent_calories (Running a d w) =
     (if d = 0 then Inl ZeroDivisionError
      else Inr ((18 * (of_int a * 0.65 / 1000 / d) + 1.79) * w / 1000 * d * 60), Running a d w)"
  by (simp add: Running_get_spent_calories_def then_call_def Training_get_mean_speed_eq
      bind_err_def truediv_def constant_defs)

lemma SportsWalking_get_spent_calories_eq:
  "SportsWalking_get_spent_calories (SportsWalking a d w h) =
     (if d = 0 \<or> h = 0 then Inl ZeroDivisionError
      else Inr ((0.035 * w + (of_int a * 0.65 / 1000 / d * 0.278)\<^sup>2 / h * 100 * 0.029 * w)
                * d * 60),
      SportsWalking a d w h)"
  by (simp add: SportsWalking_get_spent_calories_def then_call_def Training_get_mean_speed_eq
      bind_err_def truediv_def constant_defs)

lemma Swimming_get_spent_calories_eq:
  "Swimming_get_spent_calories (Swimming a d w l c) =
     (if d = 0 then Inl ZeroDivisionError
      else Inr ((l * of_int c / 1000 / d + 1.1) * 2 * w * d), Swimming a d w l c)"
  by (simp add: Swimming_get_spent_calories_def then_call_def Swimming_get_mean_speed_eq
      constant_defs)

lemma get_spent_calories_frame: "snd (get_spent_calories self) = self"
  by (cases self)
    (simp_all add: Training_get_spent_calories_def Running_get_spent_calories_eq
      SportsWalking_get_spent_calories_eq Swimming_get_spent_calories_eq)

lemma then_call_frame:
  assumes "snd r = self" and "\<And>x. snd (k x self) = self"
  shows "snd (then_call r k) = self"
  using assms by (cases r) (auto simp: then_call_def split: sum.splits)

lemma show_training_info_frame: "snd (show_training_info self) = self"
  unfolding show_training_info_def Let_def
  by (intro then_call_frame get_mean_speed_frame get_spent_calories_frame)
     (simp_all add: get_distance_eq)

text \<open>\<open>read_package\<close> by the code it is given.\<close>

lemma read_package_RUN: "read_package ''RUN'' data = Running_init data"
  by (simp add: read_package_def training_types_def)

lemma read_package_WLK: "read_package ''WLK'' data = SportsWalking_init data"
  by (simp add: read_package_def training_types_def)

lemma read_package_SWM: "read_package ''SWM'' data = Swimming_init data"
  by (simp add: read_package_def training_types_def)

lemma read_package_unknown:
  assumes "workout_type \<noteq> ''RUN''" and "workout_type \<noteq> ''WLK''"
    and "workout_type \<noteq> ''SWM''"
  shows "read_package workout_type data = Inl (ValueError Nepravilnyi_tip_trenirovki)"
  using assms by (simp add: read_package_def training_types_def)

lemma utf8_char_not_Nil: "utf8_char c \<noteq> []"
  by (simp add: utf8_char_def)

lemma Nepravilnyi_tip_trenirovki_not_Nil: "Nepravilnyi_tip_trenirovki \<noteq> []"
  by (simp add: Nepravilnyi_tip_trenirovki_def utf8_def utf8_char_not_Nil)

text \<open>The package \<open>("RUN", [15000, 1, 75])\<close> of the driver, step by step.\<close>

lemma show_training_info_Running_15000:
  "show_training_info (Running 15000 1 75) =
     (Inr \<lparr>training_type = ''Running'', duration = 1, distance = 9.75, speed = 9.75,
           calories = 797.805\<rparr>,
      Running 15000 1 75)"
  by (simp add: show_training_info_def then_call_def get_distance_eq
      Training_get_mean_speed_eq Running_get_spent_calories_eq)

lemma get_message_Running_15000:
  "get_message \<lparr>training_type = ''Running'', duration = 1, distance = 9.75, speed = 9.75,
                 calories = 797.805\<rparr> =
     Tip_trenirovki @ '': Running; ''
     @ Dlitelnost @ '': 1.000 '' @ cyr_ch @ ''.; ''
     @ Distantsiya @ '': 9.750 '' @ cyr_km @ ''; ''
     @ Sr_skorost @ '': 9.750 '' @ cyr_km @ ''/'' @ cyr_ch @ ''; ''
     @ Potracheno_kkal @ '': 797.805.''"
  by (simp add: get_message_def format_3f_def round_half_even_def digit_char_def)

lemma main_line_RUN_15000:
  "main_line ''RUN'' [15000, 1, 75] =
     Inr (get_message \<lparr>training_type = ''Running'', duration = 1, distance = 9.75,
                        speed = 9.75, calories = 797.805\<rparr>)"
  by (simp add: main_line_def read_package_RUN bind_err_def show_training_info_Running_15000)

section \<open>The claims\<close>

text \<open>
  C1. For the record that \<open>read_package("RUN", [15000, 1, 75])\<close> builds, the string
  that \<open>show_training_info().get_message()\<close> returns is not the one the claim gives,
  which ends with "Potracheno kkal: 741.825.": the line that the driver prints for this
  package differs from it.
\<close>

theorem message_RUN_15000_is_not_741_825:
  "main_line ''RUN'' [15000, 1, 75] \<noteq>
     Inr (Tip_trenirovki @ '': Running; ''
          @ Dlitelnost @ '': 1.000 '' @ cyr_ch @ ''.; ''
          @ Distantsiya @ '': 9.750 '' @ cyr_km @ ''; ''
          @ Sr_skorost @ '': 9.750 '' @ cyr_km @ ''/'' @ cyr_ch @ ''; ''
          @ Potracheno_kkal @ '': 741.825.'')"
  unfolding main_line_RUN_15000 get_message_Running_15000 by simp

text \<open>
  C1, amended. \<open>read_package("RUN", [15000, 1, 75])\<close> builds the \<open>Running\<close> object with
  action 15000, duration 1 and weight 75; its \<open>show_training_info()\<close> returns the message
  with duration 1, distance 9.75, speed 9.75 and calories 797.805, since
  \<open>(18 * 9.75 + 1.79) * 75 / 1000 * 1 * 60 = 797.805\<close>; and \<open>get_message()\<close> of it is
  the string of the claim with 797.805 in the place of 741.825.
\<close>

theorem message_RUN_15000:
  "read_package ''RUN'' [15000, 1, 75] = Inr (Running 15000 1 75)
   \<and> show_training_info (Running 15000 1 75) =
       (Inr \<lparr>training_type = ''Running'', duration = 1, distance = 9.75, speed = 9.75,
             calories = 797.805\<rparr>,
        Running 15000 1 75)
   \<and> get_message \<lparr>training_type = ''Running'', duration = 1, distance = 9.75, speed = 9.75,
                   calories = 797.805\<rparr> =
       Tip_trenirovki @ '': Running; ''
       @ Dlitelnost @ '': 1.000 '' @ cyr_ch @ ''.; ''
       @ Distantsiya @ '': 9.750 '' @ cyr_km @ ''; ''
       @ Sr_skorost @ '': 9.750 '' @ cyr_km @ ''/'' @ cyr_ch @ ''; ''
       @ Potracheno_kkal @ '': 797.805.''
   \<and> main_line ''RUN'' [15000, 1, 75] =
       Inr (Tip_trenirovki @ '': Running; ''
            @ Dlitelnost @ '': 1.000 '' @ cyr_ch @ ''.; ''
            @ Distantsiya @ '': 9.750 '' @ cyr_km @ ''; ''
            @ Sr_skorost @ '': 9.750 '' @ cyr_km @ ''/'' @ cyr_ch @ ''; ''
            @ Potracheno_kkal @ '': 797.805.'')"
proof (intro conjI)
  show "read_package ''RUN'' [15000, 1, 75] = Inr (Running 15000 1 75)"
    by (simp add: read_package_RUN)
  show "show_training_info (Running 15000 1 75) =
       (Inr \<lparr>training_type = ''Running'', duration = 1, distance = 9.75, speed = 9.75,
             calories = 797.805\<rparr>,
        Running 15000 1 75)"
    by (rule show_training_info_Running_15000)
  show "get_message \<lparr>training_type = ''Running'', duration = 1, distance = 9.75,
          speed = 9.75, calories = 797.805\<rparr> =
       Tip_trenirovki @ '': Running; ''
       @ Dlitelnost @ '': 1.000 '' @ cyr_ch @ ''.; ''
       @ Distantsiya @ '': 9.750 '' @ cyr_km @ ''; ''
       @ Sr_skorost @ '': 9.750 '' @ cyr_km @ ''/'' @ cyr_ch @ ''; ''
       @ Potracheno_kkal @ '': 797.805.''"
    by (rule get_message_Running_15000)
  then show "main_line ''RUN'' [15000, 1, 75] =
       Inr (Tip_trenirovki @ '': Running; ''
            @ Dlitelnost @ '': 1.000 '' @ cyr_ch @ ''.; ''
            @ Distantsiya @ '': 9.750 '' @ cyr_km @ ''; ''
            @ Sr_skorost @ '': 9.750 '' @ cyr_km @ ''/'' @ cyr_ch @ ''; ''
            @ Potracheno_kkal @ '': 797.805.'')"
    by (simp only: main_line_RUN_15000)
qed

text \<open>
  C2. For a \<open>Swimming\<close> object with a duration other than 0, \<open>get_mean_speed()\<close> returns
  \<open>length_pool * count_pool / 1000 / duration\<close>, whatever \<open>action\<close> is, while
  \<open>get_distance()\<close> of the same object returns \<open>action * 1.38 / 1000\<close>. For a \<open>Running\<close>
  and for a \<open>SportsWalking\<close> object with a duration other than 0, \<open>get_mean_speed()\<close>
  returns what \<open>get_distance()\<close> returns, divided by the duration.
\<close>

theorem get_mean_speed_by_variant:
  assumes "d \<noteq> 0"
  shows "fst (get_mean_speed (Swimming a d w l c)) = Inr (l * of_int c / 1000 / d)
    \<and> fst (get_mean_speed (Swimming a' d w l c)) = fst (get_mean_speed (Swimming a d w l c))
    \<and> fst (get_distance (Swimming a d w l c)) = Inr (of_int a * 1.38 / 1000)
    \<and> (\<exists>x. fst (get_distance (Running a d w)) = Inr x
           \<and> fst (get_mean_speed (Running a d w)) = Inr (x / d))
    \<and> (\<exists>x. fst (get_distance (SportsWalking a d w h)) = Inr x
           \<and> fst (get_mean_speed (SportsWalking a d w h)) = Inr (x / d))"
proof (intro conjI)
  show "fst (get_mean_speed (Swimming a d w l c)) = Inr (l * of_int c / 1000 / d)"
    using assms by (simp add: Swimming_get_mean_speed_eq)
  show "fst (get_mean_speed (Swimming a' d w l c)) = fst (get_mean_speed (Swimming a d w l c))"
    by (simp add: Swimming_get_mean_speed_eq)
  show "fst (get_distance (Swimming a d w l c)) = Inr (of_int a * 1.38 / 1000)"
    by (simp add: get_distance_eq)
  show "\<exists>x. fst (get_distance (Running a d w)) = Inr x
          \<and> fst (get_mean_speed (Running a d w)) = Inr (x / d)"
    using assms
    by (intro exI [of _ "of_int a * 0.65 / 1000"])
       (simp add: get_distance_eq Training_get_mean_speed_eq)
  show "\<exists>x. fst (get_distance (SportsWalking a d w h)) = Inr x
          \<and> fst (get_mean_speed (SportsWalking a d w h)) = Inr (x / d)"
    using assms
    by (intro exI [of _ "of_int a * 0.65 / 1000"])
       (simp add: get_distance_eq Training_get_mean_speed_eq)
qed

theorem get_mean_speed_by_variant_witness:
  "(1::real) \<noteq> 0
   \<and> fst (get_mean_speed (Swimming 720 1 80 25 40)) = Inr 1
   \<and> fst (get_mean_speed (Swimming 0 1 80 25 40)) = Inr 1
   \<and> fst (get_distance (Swimming 720 1 80 25 40)) = Inr 0.9936
   \<and> fst (get_distance (Running 720 1 80)) = Inr 0.468
   \<and> fst (get_mean_speed (Running 720 1 80)) = Inr 0.468
   \<and> fst (get_distance (SportsWalking 720 1 80 180)) = Inr 0.468
   \<and> fst (get_mean_speed (SportsWalking 720 1 80 180)) = Inr 0.468"
proof -
  have d: "(1::real) \<noteq> 0"
    by simp
  note inst = get_mean_speed_by_variant
    [OF d, where a = 720 and w = 80 and l = 25 and c = 40 and a' = 0 and h = 180]
  have sw: "fst (get_mean_speed (Swimming 720 1 80 25 40)) = Inr 1"
      "fst (get_mean_speed (Swimming 0 1 80 25 40)) = Inr 1"
      "fst (get_distance (Swimming 720 1 80 25 40)) = Inr 0.9936"
    using inst by simp_all
  obtain x where x: "fst (get_distance (Running 720 1 80)) = Inr x"
      "fst (get_mean_speed (Running 720 1 80)) = Inr (x / 1)"
    using inst by blast
  obtain y where y: "fst (get_distance (SportsWalking 720 1 80 180)) = Inr y"
      "fst (get_mean_speed (SportsWalking 720 1 80 180)) = Inr (y / 1)"
    using inst by blast
  have x_eq: "x = 0.468"
    using x(1) by (simp add: get_distance_eq)
  have y_eq: "y = 0.468"
    using y(1) by (simp add: get_distance_eq)
  show ?thesis
    using sw x y unfolding x_eq y_eq by simp
qed

text \<open>
  C3. \<open>get_distance()\<close> returns \<open>action * LEN_STEP / 1000\<close> for every object, and
  \<open>LEN_STEP\<close> is 0.65 for \<open>Running\<close> and \<open>SportsWalking\<close> and 1.38 for \<open>Swimming\<close>.
\<close>

theorem get_distance_formula:
  "fst (get_distance self) = Inr (of_int (action self) * LEN_STEP self / 1000)
   \<and> LEN_STEP (Running a d w) = 0.65
   \<and> LEN_STEP (SportsWalking a d w h) = 0.65
   \<and> LEN_STEP (Swimming a d w l c) = 1.38
   \<and> fst (get_distance (Running a d w)) = Inr (of_int a * 0.65 / 1000)
   \<and> fst (get_distance (SportsWalking a d w h)) = Inr (of_int a * 0.65 / 1000)
   \<and> fst (get_distance (Swimming a d w l c)) = Inr (of_int a * 1.38 / 1000)"
  by (simp add: get_distance_eq)

text \<open>
  C4. For a \<open>Running\<close> object with a duration other than 0, \<open>get_mean_speed()\<close> returns
  a value \<open>v\<close> and \<open>get_spent_calories()\<close> returns
  \<open>(18 * v + 1.79) * weight / 1000 * duration * 60\<close>.
\<close>

theorem Running_get_spent_calories_formula:
  assumes "d \<noteq> 0"
  shows "\<exists>v. fst (get_mean_speed (Running a d w)) = Inr v
    \<and> fst (get_spent_calories (Running a d w)) = Inr ((18 * v + 1.79) * w / 1000 * d * 60)"
  using assms
  by (intro exI [of _ "of_int a * 0.65 / 1000 / d"])
     (simp add: Training_get_mean_speed_eq Running_get_spent_calories_eq)

theorem Running_get_spent_calories_formula_witness:
  "(1::real) \<noteq> 0
   \<and> fst (get_mean_speed (Running 15000 1 75)) = Inr 9.75
   \<and> fst (get_spent_calories (Running 15000 1 75)) = Inr 797.805"
proof -
  have d: "(1::real) \<noteq> 0"
    by simp
  obtain v where v: "fst (get_mean_speed (Running 15000 1 75)) = Inr v"
      "fst (get_spent_calories (Running 15000 1 75)) = Inr ((18 * v + 1.79) * 75 / 1000 * 1 * 60)"
    using Running_get_spent_calories_formula [OF d, of 15000 75] by blast
  have v_eq: "v = 9.75"
    using v(1) by (simp add: Training_get_mean_speed_eq)
  show ?thesis
    using v unfolding v_eq by simp
qed

text \<open>
  C5. For a \<open>SportsWalking\<close> object with a duration and a height other than 0,
  \<open>get_mean_speed()\<close> returns a value \<open>v\<close> and \<open>get_spent_calories()\<close> returns
  \<open>(0.035 * weight + (v * 0.278)^2 / height * 100 * 0.029 * weight) * duration * 60\<close>.
\<close>

theorem SportsWalking_get_spent_calories_formula:
  assumes "d \<noteq> 0" and "h \<noteq> 0"
  shows "\<exists>v. fst (get_mean_speed (SportsWalking a d w h)) = Inr v
    \<and> fst (get_spent_calories (SportsWalking a d w h)) =
        Inr ((0.035 * w + (v * 0.278)\<^sup>2 / h * 100 * 0.029 * w) * d * 60)"
  using assms
  by (intro exI [of _ "of_int a * 0.65 / 1000 / d"])
     (simp add: Training_get_mean_speed_eq SportsWalking_get_spent_calories_eq)

theorem SportsWalking_get_spent_calories_formula_witness:
  "(1::real) \<noteq> 0 \<and> (180::real) \<noteq> 0
   \<and> fst (get_mean_speed (SportsWalking 9000 1 75 180)) = Inr 5.85
   \<and> fst (get_spent_calories (SportsWalking 9000 1 75 180)) = Inr 349.251747525"
proof -
  have d: "(1::real) \<noteq> 0" and h: "(180::real) \<noteq> 0"
    by simp_all
  obtain v where v: "fst (get_mean_speed (SportsWalking 9000 1 75 180)) = Inr v"
      "fst (get_spent_calories (SportsWalking 9000 1 75 180)) =
         Inr ((0.035 * 75 + (v * 0.278)\<^sup>2 / 180 * 100 * 0.029 * 75) * 1 * 60)"
    using SportsWalking_get_spent_calories_formula [OF d h, of 9000 75] by blast
  have v_eq: "v = 5.85"
    using v(1) by (simp add: Training_get_mean_speed_eq)
  show ?thesis
    using v unfolding v_eq by (simp add: power2_eq_square)
qed

text \<open>
  C6. For a \<open>Swimming\<close> object with a duration other than 0, \<open>get_mean_speed()\<close> returns
  \<open>v = length_pool * count_pool / 1000 / duration\<close> and \<open>get_spent_calories()\<close> returns
  \<open>(v + 1.1) * 2 * weight * duration\<close>.
\<close>

theorem Swimming_get_spent_calories_formula:
  assumes "d \<noteq> 0"
  shows "fst (get_mean_speed (Swimming a d w l c)) = Inr (l * of_int c / 1000 / d)
    \<and> fst (get_spent_calories (Swimming a d w l c)) =
        Inr ((l * of_int c / 1000 / d + 1.1) * 2 * w * d)"
  using assms by (simp add: Swimming_get_mean_speed_eq Swimming_get_spent_calories_eq)

theorem Swimming_get_spent_calories_formula_witness:
  "(1::real) \<noteq> 0
   \<and> fst (get_mean_speed (Swimming 720 1 80 25 40)) = Inr 1
   \<and> fst (get_spent_calories (Swimming 720 1 80 25 40)) = Inr 336"
  using Swimming_get_spent_calories_formula [of 1 720 80 25 40] by simp

text \<open>
  C7. For a code other than "RUN", "WLK" and "SWM", \<open>read_package\<close> raises the
  \<open>ValueError\<close> with the message of the source, which is not empty, whatever the
  data, and so returns no object. For each of the three codes it is the constructor
  call of its class on the data: a list of three, four and five numbers gives the
  \<open>Running\<close>, the \<open>SportsWalking\<close> and the \<open>Swimming\<close> object with these numbers as
  its attributes, in the order of the list.
\<close>

theorem read_package_dispatch:
  "(workout_type \<noteq> ''RUN'' \<and> workout_type \<noteq> ''WLK'' \<and> workout_type \<noteq> ''SWM'' \<longrightarrow>
      read_package workout_type data = Inl (ValueError Nepravilnyi_tip_trenirovki)
      \<and> (\<forall>training. read_package workout_type data \<noteq> Inr training))
   \<and> Nepravilnyi_tip_trenirovki \<noteq> []
   \<and> read_package ''RUN'' data = Running_init data
   \<and> read_package ''WLK'' data = SportsWalking_init data
   \<and> read_package ''SWM'' data = Swimming_init data
   \<and> read_package ''RUN'' [a, d, w] = Inr (Running a (of_int d) (of_int w))
   \<and> read_package ''WLK'' [a, d, w, h] =
       Inr (SportsWalking a (of_int d) (of_int w) (of_int h))
   \<and> read_package ''SWM'' [a, d, w, l, c] =
       Inr (Swimming a (of_int d) (of_int w) (of_int l) c)"
  by (simp add: read_package_unknown Nepravilnyi_tip_trenirovki_not_Nil read_package_RUN
      read_package_WLK read_package_SWM)

theorem read_package_dispatch_witness:
  "''XYZ'' \<noteq> ''RUN'' \<and> ''XYZ'' \<noteq> ''WLK'' \<and> ''XYZ'' \<noteq> ''SWM''
   \<and> read_package ''XYZ'' [1, 2, 3] = Inl (ValueError Nepravilnyi_tip_trenirovki)
   \<and> read_package ''RUN'' [15000, 1, 75] = Inr (Running 15000 1 75)
   \<and> read_package ''WLK'' [9000, 1, 75, 180] = Inr (SportsWalking 9000 1 75 180)
   \<and> read_package ''SWM'' [720, 1, 80, 25, 40] = Inr (Swimming 720 1 80 25 40)"
proof -
  have code: "''XYZ'' \<noteq> ''RUN'' \<and> ''XYZ'' \<noteq> ''WLK'' \<and> ''XYZ'' \<noteq> ''SWM''"
    by simp
  have "read_package ''XYZ'' [1, 2, 3] = Inl (ValueError Nepravilnyi_tip_trenirovki)"
    using read_package_dispatch [of "''XYZ''" "[1, 2, 3]"] code by blast
  moreover have "read_package ''RUN'' [15000, 1, 75] = Inr (Running 15000 1 75)"
    using read_package_dispatch [where a = 15000 and d = 1 and w = 75] by simp
  moreover have
    "read_package ''WLK'' [9000, 1, 75, 180] = Inr (SportsWalking 9000 1 75 180)"
    using read_package_dispatch [where a = 9000 and d = 1 and w = 75 and h = 180] by simp
  moreover have
    "read_package ''SWM'' [720, 1, 80, 25, 40] = Inr (Swimming 720 1 80 25 40)"
    using read_package_dispatch [where a = 720 and d = 1 and w = 80 and l = 25 and c = 40]
    by simp
  ultimately show ?thesis
    using code by simp
qed

text \<open>
  C8. \<open>get_spent_calories()\<close> of an object of the base class \<open>Training\<close> raises the
  \<open>NotImplementedError\<close> of the source, whatever the attributes: it returns no value,
  and the exception is not a \<open>ValueError\<close>, the exception of \<open>read_package\<close>.
\<close>

theorem Training_get_spent_calories_raises:
  "fst (get_spent_calories (Training a d w)) =
     Inl (NotImplementedError V_dochernikh_klassakh_ne_opisan_metod)
   \<and> (\<forall>x. fst (get_spent_calories (Training a d w)) \<noteq> Inr x)
   \<and> (\<forall>m. fst (get_spent_calories (Training a d w)) \<noteq> Inl (ValueError m))"
  by (simp add: Training_get_spent_calories_def)



text \<open>
  C10. \<open>get_distance()\<close>, \<open>get_mean_speed()\<close>, \<open>get_spent_calories()\<close> and
  \<open>show_training_info()\<close> leave the object as it was, whatever its class and its
  attributes and whether they return or raise; and a second call of the same method on
  the object that the first call left has the outcome of the first.
\<close>

theorem methods_leave_object_unchanged:
  "snd (get_distance self) = self
   \<and> snd (get_mean_speed self) = self
   \<and> snd (get_spent_calories self) = self
   \<and> snd (show_training_info self) = self
   \<and> get_distance (snd (get_distance self)) = get_distance self
   \<and> get_mean_speed (snd (get_mean_speed self)) = get_mean_speed self
   \<and> get_spent_calories (snd (get_spent_calories self)) = get_spent_calories self
   \<and> show_training_info (snd (show_training_info self)) = show_training_info self"
  by (simp add: get_distance_eq get_mean_speed_frame get_spent_calories_frame
      show_training_info_frame)

end
